theory Spec2Isabelle
  imports Complex_Main "HOL-Library.Multiset"
begin

section \<open>Data model\<close>

text \<open>
  Conventions of the embedding.
  \<^item> A Python \<open>Decimal\<close> is modelled by its exact value, a rational number
    (\<open>Decimal\<close>): addition, subtraction, multiplication and comparison are the exact
    ones. The working precision of the decimal context (28 significant digits) and the
    scale of the database columns (\<open>Numeric(18, 8)\<close>) are not part of the model.
  \<^item> A \<open>datetime\<close> is an integer time stamp; \<open>datetime.utcnow()\<close> is a parameter
    \<open>now\<close> of the function that reads the clock.
  \<^item> The \<open>trades\<close> table is the list of its rows, in insertion order; a commit stores
    the values the code assigned. The primary key \<open>id\<close> is the field \<open>id'\<close>.
  \<^item> Strings are lists of 8-bit characters; the character classes below are those of
    Python on ASCII text, and the theorems about symbols are stated for ASCII strings.
  \<^item> Binary floating point is not interpreted: the win rate is kept as the expression
    the code evaluates (\<open>pyfloat\<close>).
\<close>

type_synonym Decimal = rat
type_synonym datetime = int

datatype TradeType = BUY | SELL

datatype TradeStatus = OPEN | CLOSED

datatype error =
    ValueError
  | ValidationError
  | TradeNotFoundError int
  | TradeAlreadyClosedError int
  | MultipleResultsFound

record TradeCreate =
  symbol :: string
  entry_price :: Decimal
  quantity :: Decimal
  trade_type :: TradeType

record TradeClose =
  exit_price :: Decimal

record Trade =
  id' :: int
  user_id :: int
  symbol :: string
  entry_price :: Decimal
  quantity :: Decimal
  trade_type :: TradeType
  status :: TradeStatus
  exit_price :: "Decimal option"
  realized_pnl :: "Decimal option"
  created_at :: datetime
  closed_at :: "datetime option"

datatype pyfloat =
    FloatZero
  | IntTrueDiv nat nat
  | FloatMulInt pyfloat int
  | FloatRound pyfloat nat

record PortfolioSummary =
  total_realized_pnl :: Decimal
  open_positions :: nat
  closed_positions :: nat
  winning_trades :: nat
  losing_trades :: nat
  win_rate :: pyfloat

section \<open>The P\&L rule: \<open>Trade.calculate_pnl\<close>\<close>

definition calculate_pnl :: "Trade \<Rightarrow> Decimal \<Rightarrow> Decimal" where
  "calculate_pnl self xp =
     (if trade_type self = BUY
      then (xp - entry_price self) * quantity self
      else (entry_price self - xp) * quantity self)"

section \<open>Request schemas: \<open>TradeCreate\<close> and \<open>TradeClose\<close>\<close>










fun split :: "char \<Rightarrow> string \<Rightarrow> string list" where
  "split sep [] = [[]]"
| "split sep (c # cs) =
     (if c = sep then [] # split sep cs
      else (case split sep cs of
              [] \<Rightarrow> [[c]]
            | p # ps \<Rightarrow> (c # p) # ps))"








section \<open>The service layer: \<open>TradeService\<close>\<close>

text \<open>The key the database gives a new row: larger than every key of the table.\<close>

definition next_id :: "Trade list \<Rightarrow> int" where
  "next_id rows = fold max (map id' rows) 0 + 1"

definition create_trade ::
  "Trade list \<Rightarrow> datetime \<Rightarrow> int \<Rightarrow> TradeCreate \<Rightarrow> Trade \<times> Trade list" where
  "create_trade db now uid trade_data =
     (let trade = \<lparr>id' = next_id db,
                    user_id = uid,
                    symbol = TradeCreate.symbol trade_data,
                    entry_price = TradeCreate.entry_price trade_data,
                    quantity = TradeCreate.quantity trade_data,
                    trade_type = TradeCreate.trade_type trade_data,
                    status = OPEN,
                    exit_price = None,
                    realized_pnl = None,
                    created_at = now,
                    closed_at = None\<rparr>
      in (trade, db @ [trade]))"

definition order_by_created_at_desc :: "Trade list \<Rightarrow> Trade list" where
  "order_by_created_at_desc ts = sort_key (\<lambda>t. - created_at t) ts"

definition get_user_trades :: "Trade list \<Rightarrow> int \<Rightarrow> TradeStatus option \<Rightarrow> Trade list" where
  "get_user_trades db uid st =
     (let query = filter (\<lambda>t. user_id t = uid) db;
          query = (case st of
                     Some s \<Rightarrow> filter (\<lambda>t. status t = s) query
                   | None \<Rightarrow> query)
      in order_by_created_at_desc query)"

definition get_all_trades :: "Trade list \<Rightarrow> Trade list" where
  "get_all_trades db = order_by_created_at_desc db"

definition scalar_one_or_none :: "'a list \<Rightarrow> error + 'a option" where
  "scalar_one_or_none res =
     (case res of
        [] \<Rightarrow> Inr None
      | [x] \<Rightarrow> Inr (Some x)
      | _ \<Rightarrow> Inl MultipleResultsFound)"

definition get_trade_by_id :: "Trade list \<Rightarrow> int \<Rightarrow> int \<Rightarrow> error + Trade option" where
  "get_trade_by_id db tid uid =
     scalar_one_or_none (filter (\<lambda>t. id' t = tid \<and> user_id t = uid) db)"

text \<open>
  \<open>TradeService.close_trade\<close> assigns four attributes of the row object and commits;
  the commit writes the row with the object's primary key.
\<close>

definition close_trade ::
  "Trade list \<Rightarrow> datetime \<Rightarrow> Trade \<Rightarrow> Decimal \<Rightarrow> Trade \<times> Trade list" where
  "close_trade db now trade xp =
     (let trade = trade\<lparr>realized_pnl := Some (calculate_pnl trade xp)\<rparr>;
          trade = trade\<lparr>exit_price := Some xp\<rparr>;
          trade = trade\<lparr>status := CLOSED\<rparr>;
          trade = trade\<lparr>closed_at := Some now\<rparr>
      in (trade, map (\<lambda>r. if id' r = id' trade then trade else r) db))"

text \<open>The loop over the closed trades, with its three accumulators.\<close>

fun summary_loop :: "Trade list \<Rightarrow> Decimal \<times> nat \<times> nat \<Rightarrow> Decimal \<times> nat \<times> nat" where
  "summary_loop [] acc = acc"
| "summary_loop (trade # rest) (total_pnl, winning, losing) =
     summary_loop rest
       (case realized_pnl trade of
          None \<Rightarrow> (total_pnl, winning, losing)
        | Some p \<Rightarrow>
            if p \<noteq> 0
            then (if 0 < p then (total_pnl + p, winning + 1, losing)
                  else if p < 0 then (total_pnl + p, winning, losing + 1)
                  else (total_pnl + p, winning, losing))
            else (total_pnl, winning, losing))"

definition get_portfolio_summary :: "Trade list \<Rightarrow> int \<Rightarrow> PortfolioSummary" where
  "get_portfolio_summary db uid =
     (let open_positions = length (filter (\<lambda>t. user_id t = uid \<and> status t = OPEN) db);
          closed_trades = filter (\<lambda>t. user_id t = uid \<and> status t = CLOSED) db;
          (total_pnl, winning, losing) = summary_loop closed_trades (0, 0, 0);
          closed_positions = length closed_trades;
          win_rate = (if 0 < closed_positions
                      then FloatMulInt (IntTrueDiv winning closed_positions) 100
                      else FloatZero)
      in \<lparr>total_realized_pnl = total_pnl,
          open_positions = open_positions,
          closed_positions = closed_positions,
          winning_trades = winning,
          losing_trades = losing,
          win_rate = FloatRound win_rate 2\<rparr>)"

section \<open>The routers\<close>

definition trades_create_trade ::
  "Trade list \<Rightarrow> datetime \<Rightarrow> int \<Rightarrow> TradeCreate \<Rightarrow> Trade \<times> Trade list" where
  "trades_create_trade db now current_user trade_data =
     create_trade db now current_user trade_data"

definition trades_get_trades :: "Trade list \<Rightarrow> int \<Rightarrow> TradeStatus option \<Rightarrow> Trade list" where
  "trades_get_trades db current_user st = get_user_trades db current_user st"

definition trades_close_trade ::
  "Trade list \<Rightarrow> datetime \<Rightarrow> int \<Rightarrow> int \<Rightarrow> TradeClose \<Rightarrow> error + Trade \<times> Trade list" where
  "trades_close_trade db now current_user tid close_data =
     (case get_trade_by_id db tid current_user of
        Inl e \<Rightarrow> Inl e
      | Inr None \<Rightarrow> Inl (TradeNotFoundError tid)
      | Inr (Some trade) \<Rightarrow>
          if status trade = CLOSED then Inl (TradeAlreadyClosedError tid)
          else Inr (close_trade db now trade (TradeClose.exit_price close_data)))"

definition portfolio_get_portfolio_summary :: "Trade list \<Rightarrow> int \<Rightarrow> PortfolioSummary" where
  "portfolio_get_portfolio_summary db current_user = get_portfolio_summary db current_user"

definition admin_get_all_trades :: "Trade list \<Rightarrow> Trade list" where
  "admin_get_all_trades db = get_all_trades db"

text \<open>
  The operations the application offers on trades, one per endpoint, each with the
  authenticated user and its validated arguments; \<open>handle\<close> gives the table after the
  request. A request that fails commits nothing.
\<close>

datatype request =
    PostTrades int TradeCreate
  | GetTrades int "TradeStatus option"
  | PatchTradeClose int int TradeClose
  | GetPortfolioSummary int
  | GetAdminTrades

fun handle :: "Trade list \<Rightarrow> datetime \<Rightarrow> request \<Rightarrow> Trade list" where
  "handle db now (PostTrades u trade_data) = snd (trades_create_trade db now u trade_data)"
| "handle db now (GetTrades u st) = db"
| "handle db now (PatchTradeClose u tid close_data) =
     (case trades_close_trade db now u tid close_data of
        Inl e \<Rightarrow> db
      | Inr (trade, db') \<Rightarrow> db')"
| "handle db now (GetPortfolioSummary u) = db"
| "handle db now GetAdminTrades = db"

text \<open>A sequence of requests, each with the time at which it is served.\<close>

fun run :: "Trade list \<Rightarrow> (datetime \<times> request) list \<Rightarrow> Trade list" where
  "run db [] = db"
| "run db ((now, req) # rest) = run (handle db now req) rest"

text \<open>The requests that close a trade.\<close>

fun is_close :: "request \<Rightarrow> bool" where
  "is_close (PatchTradeClose u tid cd) = True"
| "is_close req = False"

section \<open>A sample table\<close>

text \<open>Four trades of two users, used by the instances below.\<close>

definition alice_open :: Trade where
  "alice_open = \<lparr>id' = 1, user_id = 1, symbol = ''BTC/USDT'', entry_price = 50000,
     quantity = 1 / 10, trade_type = BUY, status = OPEN, exit_price = None,
     realized_pnl = None, created_at = 100, closed_at = None\<rparr>"

definition bob_closed :: Trade where
  "bob_closed = \<lparr>id' = 2, user_id = 2, symbol = ''ETH/USDT'', entry_price = 3000,
     quantity = 1, trade_type = BUY, status = CLOSED, exit_price = Some 4000,
     realized_pnl = Some 1000, created_at = 200, closed_at = Some 300\<rparr>"

definition bob_open :: Trade where
  "bob_open = \<lparr>id' = 3, user_id = 2, symbol = ''ETH/USDT'', entry_price = 3000,
     quantity = 2, trade_type = SELL, status = OPEN, exit_price = None,
     realized_pnl = None, created_at = 150, closed_at = None\<rparr>"

definition alice_closed :: Trade where
  "alice_closed = \<lparr>id' = 4, user_id = 1, symbol = ''BTC/USDT'', entry_price = 50000,
     quantity = 1 / 10, trade_type = BUY, status = CLOSED, exit_price = Some 55000,
     realized_pnl = Some 500, created_at = 120, closed_at = Some 400\<rparr>"

definition sample_db :: "Trade list" where
  "sample_db = [alice_open, bob_closed, bob_open, alice_closed]"

definition alice_breakeven :: Trade where
  "alice_breakeven = \<lparr>id' = 5, user_id = 1, symbol = ''BTC/USDT'', entry_price = 50000,
     quantity = 1 / 10, trade_type = BUY, status = CLOSED, exit_price = Some 50000,
     realized_pnl = Some 0, created_at = 130, closed_at = Some 410\<rparr>"

definition alice_loss :: Trade where
  "alice_loss = \<lparr>id' = 6, user_id = 1, symbol = ''ETH/USDT'', entry_price = 3000,
     quantity = 2, trade_type = SELL, status = CLOSED, exit_price = Some 3100,
     realized_pnl = Some (- 200), created_at = 140, closed_at = Some 420\<rparr>"

definition btc_long :: TradeCreate where
  "btc_long = \<lparr>TradeCreate.symbol = ''BTC/USDT'', entry_price = 50000, quantity = 1 / 10,
     trade_type = BUY\<rparr>"

section \<open>Keys and lookup\<close>

lemma fold_max_ge: "(a::int) \<le> fold max xs a"
  by (induction xs arbitrary: a) (auto intro: order_trans [OF max.cobounded2])

lemma fold_max_mem: "x \<in> set xs \<Longrightarrow> (x::int) \<le> fold max xs a"
proof (induction xs arbitrary: a)
  case Nil
  then show ?case by simp
next
  case (Cons y ys)
  show ?case
  proof (cases "x = y")
    case True
    have "max y a \<le> fold max ys (max y a)" by (rule fold_max_ge)
    with True show ?thesis by simp
  next
    case False
    with Cons show ?thesis by simp
  qed
qed

lemma next_id_fresh: "r \<in> set db \<Longrightarrow> id' r < next_id db"
  using fold_max_mem [of "id' r" "map id' db" 0] by (simp add: next_id_def)

lemma filter_id_distinct:
  "distinct (map id' db) \<Longrightarrow> t \<in> set db \<Longrightarrow> filter (\<lambda>r. id' r = id' t) db = [t]"
proof (induction db)
  case Nil
  then show ?case by simp
next
  case (Cons r rs)
  show ?case
  proof (cases "r = t")
    case True
    from Cons.prems(1) True have "id' t \<notin> id' ` set rs" by simp
    then have "\<forall>y\<in>set rs. id' y \<noteq> id' t" by (metis imageI)
    then have "filter (\<lambda>r. id' r = id' t) rs = []" by (simp add: filter_empty_conv)
    with True show ?thesis by simp
  next
    case False
    with Cons.prems have "t \<in> set rs" and "id' r \<noteq> id' t" by auto
    with Cons show ?thesis by simp
  qed
qed

lemma get_trade_by_id_owned:
  assumes "distinct (map id' db)" and "t \<in> set db" and "user_id t = u"
  shows "get_trade_by_id db (id' t) u = Inr (Some t)"
proof -
  have "filter (\<lambda>r. id' r = id' t \<and> user_id r = u) db
      = filter (\<lambda>r. user_id r = u) (filter (\<lambda>r. id' r = id' t) db)"
    by (simp add: conj_commute)
  also have "\<dots> = [t]" using assms by (simp add: filter_id_distinct)
  finally show ?thesis by (simp add: get_trade_by_id_def scalar_one_or_none_def)
qed

lemma get_trade_by_id_foreign:
  assumes "distinct (map id' db)" and "t \<in> set db" and "user_id t \<noteq> u"
  shows "get_trade_by_id db (id' t) u = Inr None"
proof -
  have "filter (\<lambda>r. id' r = id' t \<and> user_id r = u) db
      = filter (\<lambda>r. user_id r = u) (filter (\<lambda>r. id' r = id' t) db)"
    by (simp add: conj_commute)
  also have "\<dots> = []" using assms by (simp add: filter_id_distinct)
  finally show ?thesis by (simp add: get_trade_by_id_def scalar_one_or_none_def)
qed

lemma get_trade_by_id_Some:
  "get_trade_by_id db tid u = Inr (Some t) \<Longrightarrow> t \<in> set db \<and> id' t = tid \<and> user_id t = u"
proof -
  assume a: "get_trade_by_id db tid u = Inr (Some t)"
  then have "filter (\<lambda>r. id' r = tid \<and> user_id r = u) db = [t]"
    by (auto simp: get_trade_by_id_def scalar_one_or_none_def split: list.splits)
  then have "t \<in> set (filter (\<lambda>r. id' r = tid \<and> user_id r = u) db)" by simp
  then show ?thesis by simp
qed

lemma map_replace_distinct:
  "distinct (map id' db) \<Longrightarrow> t \<in> set db \<Longrightarrow>
   map (\<lambda>r. if id' r = id' t then t' else r) db = map (\<lambda>r. if r = t then t' else r) db"
  by (rule map_cong) (auto simp: distinct_map inj_on_def)

section \<open>Closing and the requests\<close>

lemma close_trade_result:
  "close_trade db now t x =
     (t\<lparr>realized_pnl := Some (calculate_pnl t x), exit_price := Some x,
        status := CLOSED, closed_at := Some now\<rparr>,
      map (\<lambda>r. if id' r = id' t
                then t\<lparr>realized_pnl := Some (calculate_pnl t x), exit_price := Some x,
                       status := CLOSED, closed_at := Some now\<rparr>
                else r) db)"
  by (simp add: close_trade_def Let_def)

lemma trades_close_trade_open:
  assumes "distinct (map id' db)" and "t \<in> set db" and "status t = OPEN"
  shows "trades_close_trade db now (user_id t) (id' t) cd =
           Inr (close_trade db now t (TradeClose.exit_price cd))"
  using assms get_trade_by_id_owned [of db t "user_id t"]
  by (simp add: trades_close_trade_def)

lemma trades_close_trade_closed:
  assumes "distinct (map id' db)" and "t \<in> set db" and "status t = CLOSED"
  shows "trades_close_trade db now (user_id t) (id' t) cd = Inl (TradeAlreadyClosedError (id' t))"
  using assms get_trade_by_id_owned [of db t "user_id t"]
  by (simp add: trades_close_trade_def)

lemma trades_close_trade_foreign:
  assumes "distinct (map id' db)" and "t \<in> set db" and "user_id t \<noteq> u"
  shows "trades_close_trade db now u (id' t) cd = Inl (TradeNotFoundError (id' t))"
  using assms get_trade_by_id_foreign [of db t u]
  by (simp add: trades_close_trade_def)

text \<open>What a successful close does to the table: one OPEN row is replaced.\<close>

lemma trades_close_trade_Inr:
  assumes "trades_close_trade db now u tid cd = Inr (t', db')"
  shows "\<exists>t. t \<in> set db \<and> id' t = tid \<and> user_id t = u \<and> status t = OPEN
           \<and> (t', db') = close_trade db now t (TradeClose.exit_price cd)"
proof (cases "get_trade_by_id db tid u")
  case (Inl e)
  with assms show ?thesis by (simp add: trades_close_trade_def)
next
  case (Inr opt)
  show ?thesis
  proof (cases opt)
    case None
    with Inr assms show ?thesis by (simp add: trades_close_trade_def)
  next
    case (Some t)
    with Inr have g: "get_trade_by_id db tid u = Inr (Some t)" by simp
    from get_trade_by_id_Some [OF g] have m: "t \<in> set db" "id' t = tid" "user_id t = u"
      by simp_all
    from assms g have "status t \<noteq> CLOSED"
      by (auto simp: trades_close_trade_def split: if_splits)
    then have o: "status t = OPEN" by (cases "status t") simp_all
    from assms g o have "(t', db') = close_trade db now t (TradeClose.exit_price cd)"
      by (simp add: trades_close_trade_def)
    with m o show ?thesis by blast
  qed
qed

lemma handle_cases:
  "handle db now req = db
   \<or> (\<exists>u td. req = PostTrades u td \<and> handle db now req = db @ [fst (create_trade db now u td)])
   \<or> (\<exists>u tid cd t. req = PatchTradeClose u tid cd \<and> t \<in> set db \<and> id' t = tid
         \<and> user_id t = u \<and> status t = OPEN
         \<and> handle db now req = snd (close_trade db now t (TradeClose.exit_price cd)))"
proof (cases req)
  case (PostTrades u td)
  then show ?thesis by (simp add: trades_create_trade_def create_trade_def Let_def)
next
  case (PatchTradeClose u tid cd)
  show ?thesis
  proof (cases "trades_close_trade db now u tid cd")
    case (Inl e)
    with PatchTradeClose show ?thesis by simp
  next
    case (Inr p)
    obtain t' db' where p: "p = (t', db')" by (cases p)
    from trades_close_trade_Inr [OF Inr [unfolded p]] obtain t where
      t: "t \<in> set db" "id' t = tid" "user_id t = u" "status t = OPEN"
         "(t', db') = close_trade db now t (TradeClose.exit_price cd)" by blast
    from t(5) have "db' = snd (close_trade db now t (TradeClose.exit_price cd))"
      by (metis snd_conv)
    moreover from PatchTradeClose Inr p have "handle db now req = db'" by simp
    ultimately have "handle db now req = snd (close_trade db now t (TradeClose.exit_price cd))"
      by simp
    with PatchTradeClose t(1-4) show ?thesis by blast
  qed
qed simp_all

lemma id_create_trade: "id' (fst (create_trade db now u td)) = next_id db"
  by (simp add: create_trade_def Let_def)

lemma handle_distinct:
  assumes "distinct (map id' db)"
  shows "distinct (map id' (handle db now req))"
proof -
  consider (same) "handle db now req = db"
    | (post) u td where "handle db now req = db @ [fst (create_trade db now u td)]"
    | (close) t x where "t \<in> set db" "handle db now req = snd (close_trade db now t x)"
    using handle_cases [of db now req] by blast
  then show ?thesis
  proof cases
    case same
    with assms show ?thesis by simp
  next
    case post
    have "next_id db \<notin> id' ` set db" using next_id_fresh [of _ db] by force
    with post assms show ?thesis by (simp add: id_create_trade)
  next
    case close
    have "map id' (snd (close_trade db now t x)) = map id' db"
      by (simp add: close_trade_result cong: map_cong)
    with close assms show ?thesis by simp
  qed
qed

text \<open>A row that is CLOSED is left as it is by every request.\<close>

lemma handle_keeps_closed:
  assumes "distinct (map id' db)" and "t \<in> set db" and "status t = CLOSED"
  shows "t \<in> set (handle db now req)"
proof -
  consider (same) "handle db now req = db"
    | (post) u td where "handle db now req = db @ [fst (create_trade db now u td)]"
    | (close) t2 x where "t2 \<in> set db" "status t2 = OPEN"
        "handle db now req = snd (close_trade db now t2 x)"
    using handle_cases [of db now req] by blast
  then show ?thesis
  proof cases
    case same
    with assms show ?thesis by simp
  next
    case post
    with assms show ?thesis by simp
  next
    case close
    from close(2) assms(3) have "t \<noteq> t2" by auto
    with assms(1,2) close(1) have "id' t \<noteq> id' t2"
      by (auto simp: distinct_map inj_on_def)
    with assms(2) have "t \<in> set (snd (close_trade db now t2 x))"
      by (simp add: close_trade_result)
    with close show ?thesis by simp
  qed
qed

lemma run_distinct: "distinct (map id' db) \<Longrightarrow> distinct (map id' (run db reqs))"
  by (induction db reqs rule: run.induct) (simp_all add: handle_distinct)

lemma run_keeps_closed:
  "distinct (map id' db) \<Longrightarrow> t \<in> set db \<Longrightarrow> status t = CLOSED \<Longrightarrow> t \<in> set (run db reqs)"
  by (induction db reqs rule: run.induct) (simp_all add: handle_distinct handle_keeps_closed)

lemmas sample_defs = sample_db_def alice_open_def bob_closed_def bob_open_def alice_closed_def



section \<open>Listing and aggregation\<close>

lemma order_by_mset: "mset (order_by_created_at_desc ts) = mset ts"
  by (simp add: order_by_created_at_desc_def)

lemma order_by_set: "set (order_by_created_at_desc ts) = set ts"
  by (simp add: order_by_created_at_desc_def)

lemma order_by_sorted:
  "sorted_wrt (\<lambda>x y. created_at y \<le> created_at x) (order_by_created_at_desc ts)"
proof -
  have "sorted (map (\<lambda>t. - created_at t) (sort_key (\<lambda>t. - created_at t) ts))"
    by (rule sorted_sort_key)
  then show ?thesis
    by (simp add: order_by_created_at_desc_def sorted_map)
qed

lemma get_user_trades_filter:
  "get_user_trades db uid st =
     order_by_created_at_desc
       (filter (\<lambda>t. user_id t = uid \<and> (case st of None \<Rightarrow> True | Some s \<Rightarrow> status t = s)) db)"
  by (cases st) (simp_all add: get_user_trades_def conj_commute)

lemma sample_listing:
  "get_user_trades sample_db 1 None = [alice_closed, alice_open]"
  "get_user_trades sample_db 2 (Some OPEN) = [bob_open]"
  "get_all_trades sample_db = [bob_closed, bob_open, alice_closed, alice_open]"
  by (simp_all add: get_user_trades_def get_all_trades_def order_by_created_at_desc_def
      sample_defs)

lemma summary_loop_eq:
  "summary_loop ts (a, w, l) =
     (a + (\<Sum>t\<leftarrow>ts. case realized_pnl t of None \<Rightarrow> 0 | Some p \<Rightarrow> p),
      w + length (filter (\<lambda>t. case realized_pnl t of None \<Rightarrow> False | Some p \<Rightarrow> 0 < p) ts),
      l + length (filter (\<lambda>t. case realized_pnl t of None \<Rightarrow> False | Some p \<Rightarrow> p < 0) ts))"
proof (induction ts arbitrary: a w l)
  case Nil
  then show ?case by simp
next
  case (Cons t ts)
  show ?case
  proof (cases "realized_pnl t")
    case None
    then show ?thesis by (simp add: Cons.IH)
  next
    case (Some p)
    consider "0 < p" | "p < 0" | "p = 0" by linarith
    then show ?thesis
      by cases (simp_all add: Some Cons.IH)
  qed
qed

lemma win_lose_partition:
  "length (filter (\<lambda>t. case realized_pnl t of None \<Rightarrow> False | Some p \<Rightarrow> 0 < p) ts)
   + length (filter (\<lambda>t. case realized_pnl t of None \<Rightarrow> False | Some p \<Rightarrow> p < 0) ts)
   + length (filter (\<lambda>t. case realized_pnl t of None \<Rightarrow> True | Some p \<Rightarrow> p = 0) ts)
   = length ts"
proof (induction ts)
  case Nil
  then show ?case by simp
next
  case (Cons t ts)
  then show ?case by (cases "realized_pnl t") auto
qed

lemma get_portfolio_summary_fields:
  "total_realized_pnl (get_portfolio_summary db uid)
     = (\<Sum>t\<leftarrow>filter (\<lambda>t. user_id t = uid \<and> status t = CLOSED) db.
          case realized_pnl t of None \<Rightarrow> 0 | Some p \<Rightarrow> p)"
  "winning_trades (get_portfolio_summary db uid)
     = length (filter (\<lambda>t. case realized_pnl t of None \<Rightarrow> False | Some p \<Rightarrow> 0 < p)
         (filter (\<lambda>t. user_id t = uid \<and> status t = CLOSED) db))"
  "losing_trades (get_portfolio_summary db uid)
     = length (filter (\<lambda>t. case realized_pnl t of None \<Rightarrow> False | Some p \<Rightarrow> p < 0)
         (filter (\<lambda>t. user_id t = uid \<and> status t = CLOSED) db))"
  "closed_positions (get_portfolio_summary db uid)
     = length (filter (\<lambda>t. user_id t = uid \<and> status t = CLOSED) db)"
  "open_positions (get_portfolio_summary db uid)
     = length (filter (\<lambda>t. user_id t = uid \<and> status t = OPEN) db)"
  by (simp_all add: get_portfolio_summary_def summary_loop_eq Let_def)

lemma sample_summary:
  "get_portfolio_summary (sample_db @ [alice_breakeven, alice_loss]) 1 =
     \<lparr>total_realized_pnl = 300, open_positions = 1, closed_positions = 3,
      winning_trades = 1, losing_trades = 1,
      win_rate = FloatRound (FloatMulInt (IntTrueDiv 1 3) 100) 2\<rparr>"
  by (simp add: get_portfolio_summary_def sample_defs alice_breakeven_def alice_loss_def)

lemma filter_owner_status:
  "filter (\<lambda>t. user_id t = a \<and> status t = s) db
     = filter (\<lambda>t. status t = s) (filter (\<lambda>t. user_id t = a) db)"
  by (induction db) auto

lemma get_user_trades_owner_only:
  assumes "filter (\<lambda>t. user_id t = a) db' = filter (\<lambda>t. user_id t = a) db"
  shows "get_user_trades db' a st = get_user_trades db a st"
  using assms by (simp add: get_user_trades_def)

lemma closed_filter_owner_only:
  assumes "filter (\<lambda>t. user_id t = a) db' = filter (\<lambda>t. user_id t = a) db"
  shows "filter (\<lambda>t. user_id t = a \<and> status t = s) db'
      = filter (\<lambda>t. user_id t = a \<and> status t = s) db"
proof -
  have "filter (\<lambda>t. user_id t = a \<and> status t = s) db'
      = filter (\<lambda>t. status t = s) (filter (\<lambda>t. user_id t = a) db')"
    by (rule filter_owner_status)
  also have "\<dots> = filter (\<lambda>t. status t = s) (filter (\<lambda>t. user_id t = a) db)"
    by (rule arg_cong [OF assms])
  also have "\<dots> = filter (\<lambda>t. user_id t = a \<and> status t = s) db"
    by (rule filter_owner_status [symmetric])
  finally show ?thesis .
qed

lemma get_portfolio_summary_owner_only:
  assumes "filter (\<lambda>t. user_id t = a) db' = filter (\<lambda>t. user_id t = a) db"
  shows "get_portfolio_summary db' a = get_portfolio_summary db a"
  unfolding get_portfolio_summary_def
    closed_filter_owner_only [OF assms, of OPEN] closed_filter_owner_only [OF assms, of CLOSED]
  by (rule refl)

lemma removeAll_foreign:
  "user_id t_b \<noteq> a \<Longrightarrow>
   filter (\<lambda>t. user_id t = a) (removeAll t_b db) = filter (\<lambda>t. user_id t = a) db"
  by (induction db) auto

lemma win_rate_expression:
  "win_rate (get_portfolio_summary db uid)
     = FloatRound
         (if 0 < closed_positions (get_portfolio_summary db uid)
          then FloatMulInt
                 (IntTrueDiv (winning_trades (get_portfolio_summary db uid))
                    (closed_positions (get_portfolio_summary db uid))) 100
          else FloatZero) 2"
  by (simp add: get_portfolio_summary_def summary_loop_eq Let_def)

section \<open>Symbols and validation\<close>















section \<open>The P\&L rule\<close>



section \<open>Closing a trade\<close>



text \<open>
  Claim C3. Closing a trade that is CLOSED fails with \<open>TradeAlreadyClosedError\<close> and
  leaves the table as it is; after any sequence of requests a CLOSED trade is still
  in the table with every field unchanged, so its status, exit price, realized P\&L and
  closing time never change again.
\<close>

theorem closed_trade_immutable:
  assumes "distinct (map id' db)" and "t \<in> set db" and "status t = CLOSED"
  shows "trades_close_trade db now (user_id t) (id' t) cd = Inl (TradeAlreadyClosedError (id' t))
       \<and> handle db now (PatchTradeClose (user_id t) (id' t) cd) = db
       \<and> t \<in> set (run db reqs)
       \<and> (\<forall>r\<in>set (run db reqs). id' r = id' t \<longrightarrow> r = t)"
proof -
  have a: "trades_close_trade db now (user_id t) (id' t) cd = Inl (TradeAlreadyClosedError (id' t))"
    by (rule trades_close_trade_closed [OF assms])
  then have b: "handle db now (PatchTradeClose (user_id t) (id' t) cd) = db" by simp
  have c: "t \<in> set (run db reqs)" by (rule run_keeps_closed [OF assms])
  have "distinct (map id' (run db reqs))" by (rule run_distinct [OF assms(1)])
  with c have d: "\<forall>r\<in>set (run db reqs). id' r = id' t \<longrightarrow> r = t"
    by (auto simp: distinct_map inj_on_def)
  from a b c d show ?thesis by blast
qed

theorem closed_trade_immutable_witness:
  "distinct (map id' sample_db) \<and> bob_closed \<in> set sample_db \<and> status bob_closed = CLOSED
   \<and> trades_close_trade sample_db 500 2 2 \<lparr>TradeClose.exit_price = 4500\<rparr>
         = Inl (TradeAlreadyClosedError 2)
   \<and> handle sample_db 500 (PatchTradeClose 2 2 \<lparr>TradeClose.exit_price = 4500\<rparr>) = sample_db
   \<and> bob_closed \<in> set (run sample_db
         [(500, PatchTradeClose 2 2 \<lparr>TradeClose.exit_price = 4500\<rparr>),
          (510, PatchTradeClose 2 3 \<lparr>TradeClose.exit_price = 2500\<rparr>),
          (520, PostTrades 2 btc_long)])"
proof -
  have h: "distinct (map id' sample_db)" "bob_closed \<in> set sample_db" "status bob_closed = CLOSED"
    by (simp_all add: sample_defs)
  have i: "id' bob_closed = 2" "user_id bob_closed = 2"
    by (simp_all add: bob_closed_def)
  from closed_trade_immutable [OF h, of 500 "\<lparr>TradeClose.exit_price = 4500\<rparr>"
      "[(500, PatchTradeClose 2 2 \<lparr>TradeClose.exit_price = 4500\<rparr>),
        (510, PatchTradeClose 2 3 \<lparr>TradeClose.exit_price = 2500\<rparr>),
        (520, PostTrades 2 btc_long)]"]
  show ?thesis unfolding i using h by blast
qed

text \<open>
  Claim C8. Closing an OPEN trade succeeds and changes only its status, exit price,
  realized P\&L and closing time: id, owner, symbol, entry price, quantity, direction
  and creation time keep their values, and every other row of the table is kept. A
  request that is not a close leaves every existing row as it is (the table it returns
  starts with the old table).
\<close>

theorem close_frame:
  assumes "distinct (map id' db)" and "t \<in> set db" and "status t = OPEN"
  shows "(\<exists>t' db'. trades_close_trade db now (user_id t) (id' t) cd = Inr (t', db')
            \<and> id' t' = id' t \<and> user_id t' = user_id t \<and> symbol t' = symbol t
            \<and> entry_price t' = entry_price t \<and> quantity t' = quantity t
            \<and> trade_type t' = trade_type t \<and> created_at t' = created_at t
            \<and> t' = t\<lparr>status := status t', exit_price := exit_price t',
                     realized_pnl := realized_pnl t', closed_at := closed_at t'\<rparr>
            \<and> db' = map (\<lambda>r. if r = t then t' else r) db)
       \<and> (\<not> is_close req \<longrightarrow> take (length db) (handle db now req) = db)"
proof -
  let ?t' = "t\<lparr>realized_pnl := Some (calculate_pnl t (TradeClose.exit_price cd)),
               exit_price := Some (TradeClose.exit_price cd),
               status := CLOSED, closed_at := Some now\<rparr>"
  have "trades_close_trade db now (user_id t) (id' t) cd
          = Inr (?t', map (\<lambda>r. if r = t then ?t' else r) db)"
    using trades_close_trade_open [OF assms, of now cd] map_replace_distinct [OF assms(1,2)]
    by (simp add: close_trade_result)
  then have a: "\<exists>t' db'. trades_close_trade db now (user_id t) (id' t) cd = Inr (t', db')
            \<and> id' t' = id' t \<and> user_id t' = user_id t \<and> symbol t' = symbol t
            \<and> entry_price t' = entry_price t \<and> quantity t' = quantity t
            \<and> trade_type t' = trade_type t \<and> created_at t' = created_at t
            \<and> t' = t\<lparr>status := status t', exit_price := exit_price t',
                     realized_pnl := realized_pnl t', closed_at := closed_at t'\<rparr>
            \<and> db' = map (\<lambda>r. if r = t then t' else r) db"
    by simp
  have b: "\<not> is_close req \<longrightarrow> take (length db) (handle db now req) = db"
    by (cases req) (simp_all add: trades_create_trade_def create_trade_def Let_def)
  from a b show ?thesis by blast
qed

theorem close_frame_witness:
  "distinct (map id' sample_db) \<and> alice_open \<in> set sample_db \<and> status alice_open = OPEN
   \<and> trades_close_trade sample_db 500 1 1 \<lparr>TradeClose.exit_price = 55000\<rparr>
       = Inr (alice_open\<lparr>realized_pnl := Some 500, exit_price := Some 55000,
                         status := CLOSED, closed_at := Some 500\<rparr>,
              [alice_open\<lparr>realized_pnl := Some 500, exit_price := Some 55000,
                          status := CLOSED, closed_at := Some 500\<rparr>,
               bob_closed, bob_open, alice_closed])
   \<and> \<not> is_close (PostTrades 1 btc_long)
   \<and> take (length sample_db) (handle sample_db 500 (PostTrades 1 btc_long)) = sample_db"
proof -
  have h: "distinct (map id' sample_db)" "alice_open \<in> set sample_db" "status alice_open = OPEN"
    by (simp_all add: sample_defs)
  have c: "trades_close_trade sample_db 500 1 1 \<lparr>TradeClose.exit_price = 55000\<rparr>
       = Inr (alice_open\<lparr>realized_pnl := Some 500, exit_price := Some 55000,
                         status := CLOSED, closed_at := Some 500\<rparr>,
              [alice_open\<lparr>realized_pnl := Some 500, exit_price := Some 55000,
                          status := CLOSED, closed_at := Some 500\<rparr>,
               bob_closed, bob_open, alice_closed])"
    by (simp add: sample_defs trades_close_trade_def get_trade_by_id_def scalar_one_or_none_def
        close_trade_def calculate_pnl_def Let_def)
  from close_frame [OF h, of 500 "\<lparr>TradeClose.exit_price = 55000\<rparr>" "PostTrades 1 btc_long"]
  show ?thesis using h c by simp
qed

text \<open>
  Claim C10. A close request for a trade of another user fails with
  \<open>TradeNotFoundError\<close>, whatever the status of that trade, never with
  \<open>TradeAlreadyClosedError\<close>, and leaves the table as it is: the lookup by id and
  owner comes before the test of the status.
\<close>

theorem foreign_close_not_found:
  assumes "distinct (map id' db)" and "t \<in> set db" and "user_id t \<noteq> u"
  shows "trades_close_trade db now u (id' t) cd = Inl (TradeNotFoundError (id' t))
       \<and> trades_close_trade db now u (id' t) cd \<noteq> Inl (TradeAlreadyClosedError (id' t))
       \<and> handle db now (PatchTradeClose u (id' t) cd) = db"
  using trades_close_trade_foreign [OF assms, of now cd] by simp

theorem foreign_close_not_found_witness:
  "distinct (map id' sample_db)
   \<and> bob_closed \<in> set sample_db \<and> user_id bob_closed \<noteq> 1 \<and> status bob_closed = CLOSED
   \<and> trades_close_trade sample_db 500 1 2 \<lparr>TradeClose.exit_price = 4500\<rparr>
         = Inl (TradeNotFoundError 2)
   \<and> bob_open \<in> set sample_db \<and> user_id bob_open \<noteq> 1 \<and> status bob_open = OPEN
   \<and> trades_close_trade sample_db 500 1 3 \<lparr>TradeClose.exit_price = 4500\<rparr>
         = Inl (TradeNotFoundError 3)"
proof -
  have h: "distinct (map id' sample_db)" by (simp add: sample_defs)
  have c: "bob_closed \<in> set sample_db" "user_id bob_closed \<noteq> 1"
    and d: "bob_open \<in> set sample_db" "user_id bob_open \<noteq> 1"
    by (simp_all add: sample_defs)
  have i: "id' bob_closed = 2" "id' bob_open = 3" "status bob_closed = CLOSED"
    "status bob_open = OPEN"
    by (simp_all add: bob_closed_def bob_open_def)
  from foreign_close_not_found [OF h c, of 500 "\<lparr>TradeClose.exit_price = 4500\<rparr>"]
    foreign_close_not_found [OF h d, of 500 "\<lparr>TradeClose.exit_price = 4500\<rparr>"]
  show ?thesis unfolding i using h c d i(3,4) by blast
qed

section \<open>Listing, isolation and the portfolio summary\<close>

text \<open>
  Claim C9. The list of a user's trades holds exactly the rows of the table owned by
  that user, restricted to the given status when a filter is supplied, each once, and
  is sorted by creation time, most recent first; the list of all trades holds every row
  of the table, sorted in the same way.
\<close>

theorem listing_sorted:
  "mset (get_user_trades db uid st)
     = mset (filter (\<lambda>t. user_id t = uid \<and> (case st of None \<Rightarrow> True | Some s \<Rightarrow> status t = s)) db)
   \<and> (\<forall>t\<in>set (get_user_trades db uid st). user_id t = uid \<and> (\<forall>s. st = Some s \<longrightarrow> status t = s))
   \<and> sorted_wrt (\<lambda>x y. created_at y \<le> created_at x) (get_user_trades db uid st)
   \<and> mset (get_all_trades db) = mset db
   \<and> sorted_wrt (\<lambda>x y. created_at y \<le> created_at x) (get_all_trades db)"
proof -
  have a: "mset (get_user_trades db uid st)
     = mset (filter (\<lambda>t. user_id t = uid \<and> (case st of None \<Rightarrow> True | Some s \<Rightarrow> status t = s)) db)"
    by (simp add: get_user_trades_filter order_by_mset)
  have b: "\<forall>t\<in>set (get_user_trades db uid st). user_id t = uid \<and> (\<forall>s. st = Some s \<longrightarrow> status t = s)"
    by (auto simp: get_user_trades_filter order_by_set)
  have c: "sorted_wrt (\<lambda>x y. created_at y \<le> created_at x) (get_user_trades db uid st)"
    by (simp add: get_user_trades_filter order_by_sorted)
  have d: "mset (get_all_trades db) = mset db"
    by (simp add: get_all_trades_def order_by_mset)
  have e: "sorted_wrt (\<lambda>x y. created_at y \<le> created_at x) (get_all_trades db)"
    by (simp add: get_all_trades_def order_by_sorted)
  from a b c d e show ?thesis by blast
qed

theorem listing_sorted_witness:
  "get_user_trades sample_db 2 (Some OPEN) = [bob_open]
   \<and> mset [bob_open]
       = mset (filter (\<lambda>t. user_id t = 2 \<and> status t = OPEN) sample_db)
   \<and> user_id bob_open = 2 \<and> status bob_open = OPEN
   \<and> get_all_trades sample_db = [bob_closed, bob_open, alice_closed, alice_open]
   \<and> mset [bob_closed, bob_open, alice_closed, alice_open] = mset sample_db
   \<and> sorted_wrt (\<lambda>x y. created_at y \<le> created_at x)
        [bob_closed, bob_open, alice_closed, alice_open]"
  using listing_sorted [of sample_db 2 "Some OPEN"]
  by (simp add: sample_listing)

text \<open>
  Claim C6. The summary of a user gives as total the exact sum of the realized P\&L of
  the user's CLOSED trades (a null P\&L adds nothing; the total is zero when there is no
  closed trade), as winning trades the number of those with a positive P\&L, as losing
  trades the number of those with a negative P\&L, and as closed positions the number of
  all of them; so winning plus losing is at most the closed positions, the difference
  being the closed trades whose P\&L is zero (or null), which count in the closed
  positions and, with zero, in the sum.
\<close>

theorem summary_totals:
  "total_realized_pnl (get_portfolio_summary db uid)
     = (\<Sum>t\<leftarrow>filter (\<lambda>t. user_id t = uid \<and> status t = CLOSED) db.
          case realized_pnl t of None \<Rightarrow> 0 | Some p \<Rightarrow> p)
   \<and> (filter (\<lambda>t. user_id t = uid \<and> status t = CLOSED) db = []
        \<longrightarrow> total_realized_pnl (get_portfolio_summary db uid) = 0)
   \<and> winning_trades (get_portfolio_summary db uid)
     = length (filter (\<lambda>t. case realized_pnl t of None \<Rightarrow> False | Some p \<Rightarrow> 0 < p)
         (filter (\<lambda>t. user_id t = uid \<and> status t = CLOSED) db))
   \<and> losing_trades (get_portfolio_summary db uid)
     = length (filter (\<lambda>t. case realized_pnl t of None \<Rightarrow> False | Some p \<Rightarrow> p < 0)
         (filter (\<lambda>t. user_id t = uid \<and> status t = CLOSED) db))
   \<and> closed_positions (get_portfolio_summary db uid)
     = length (filter (\<lambda>t. user_id t = uid \<and> status t = CLOSED) db)
   \<and> winning_trades (get_portfolio_summary db uid) + losing_trades (get_portfolio_summary db uid)
     \<le> closed_positions (get_portfolio_summary db uid)
   \<and> winning_trades (get_portfolio_summary db uid) + losing_trades (get_portfolio_summary db uid)
       + length (filter (\<lambda>t. case realized_pnl t of None \<Rightarrow> True | Some p \<Rightarrow> p = 0)
           (filter (\<lambda>t. user_id t = uid \<and> status t = CLOSED) db))
     = closed_positions (get_portfolio_summary db uid)"
proof -
  let ?closed = "filter (\<lambda>t. user_id t = uid \<and> status t = CLOSED) db"
  note f = get_portfolio_summary_fields [of db uid]
  have p: "winning_trades (get_portfolio_summary db uid)
       + losing_trades (get_portfolio_summary db uid)
       + length (filter (\<lambda>t. case realized_pnl t of None \<Rightarrow> True | Some p \<Rightarrow> p = 0) ?closed)
     = closed_positions (get_portfolio_summary db uid)"
    unfolding f by (rule win_lose_partition)
  then have q: "winning_trades (get_portfolio_summary db uid)
       + losing_trades (get_portfolio_summary db uid)
     \<le> closed_positions (get_portfolio_summary db uid)"
    by linarith
  have z: "?closed = [] \<longrightarrow> total_realized_pnl (get_portfolio_summary db uid) = 0"
    by (simp add: f(1))
  from f(1-4) p q z show ?thesis by blast
qed

theorem summary_totals_witness:
  "filter (\<lambda>t. user_id t = 1 \<and> status t = CLOSED) (sample_db @ [alice_breakeven, alice_loss])
     = [alice_closed, alice_breakeven, alice_loss]
   \<and> total_realized_pnl (get_portfolio_summary (sample_db @ [alice_breakeven, alice_loss]) 1)
     = 500 + 0 + (- 200)
   \<and> winning_trades (get_portfolio_summary (sample_db @ [alice_breakeven, alice_loss]) 1) = 1
   \<and> losing_trades (get_portfolio_summary (sample_db @ [alice_breakeven, alice_loss]) 1) = 1
   \<and> closed_positions (get_portfolio_summary (sample_db @ [alice_breakeven, alice_loss]) 1) = 3"
proof -
  have c: "filter (\<lambda>t. user_id t = 1 \<and> status t = CLOSED)
             (sample_db @ [alice_breakeven, alice_loss])
           = [alice_closed, alice_breakeven, alice_loss]"
    by (simp add: sample_defs alice_breakeven_def alice_loss_def)
  have p: "realized_pnl alice_closed = Some 500" "realized_pnl alice_breakeven = Some 0"
    "realized_pnl alice_loss = Some (- 200)"
    by (simp_all add: sample_defs alice_breakeven_def alice_loss_def)
  from summary_totals [of "sample_db @ [alice_breakeven, alice_loss]" 1]
  show ?thesis unfolding c by (simp add: p)
qed

text \<open>
  Claim C4. For distinct users \<open>a\<close> and \<open>b\<close> and a trade \<open>t_b\<close> of \<open>b\<close> in the table:
  the list of \<open>a\<close> holds only trades of \<open>a\<close> and never \<open>t_b\<close>; looking \<open>t_b\<close> up by
  its id as \<open>a\<close> finds nothing; the summary of \<open>a\<close> is the one of the table without
  \<open>t_b\<close>; and any two tables with the same rows of \<open>a\<close> give \<open>a\<close> the same list and
  the same summary, whatever the rows of other users are.
\<close>

theorem isolation:
  assumes "a \<noteq> b" and "distinct (map id' db)" and "t_b \<in> set db" and "user_id t_b = b"
  shows "t_b \<notin> set (get_user_trades db a st)
       \<and> (\<forall>t\<in>set (get_user_trades db a st). user_id t = a)
       \<and> get_trade_by_id db (id' t_b) a = Inr None
       \<and> get_portfolio_summary db a = get_portfolio_summary (removeAll t_b db) a
       \<and> (\<forall>db'. filter (\<lambda>t. user_id t = a) db' = filter (\<lambda>t. user_id t = a) db
             \<longrightarrow> get_user_trades db' a st = get_user_trades db a st
               \<and> get_portfolio_summary db' a = get_portfolio_summary db a)"
proof -
  have o: "\<forall>t\<in>set (get_user_trades db a st). user_id t = a"
    by (simp add: get_user_trades_filter order_by_set)
  from assms(1,4) have f: "user_id t_b \<noteq> a" by simp
  with o have n: "t_b \<notin> set (get_user_trades db a st)" by blast
  have g: "get_trade_by_id db (id' t_b) a = Inr None"
    by (rule get_trade_by_id_foreign [OF assms(2,3) f])
  have r: "get_portfolio_summary db a = get_portfolio_summary (removeAll t_b db) a"
    by (rule get_portfolio_summary_owner_only [OF removeAll_foreign [OF f], symmetric])
  have i: "\<forall>db'. filter (\<lambda>t. user_id t = a) db' = filter (\<lambda>t. user_id t = a) db
             \<longrightarrow> get_user_trades db' a st = get_user_trades db a st
               \<and> get_portfolio_summary db' a = get_portfolio_summary db a"
    by (intro allI impI conjI get_user_trades_owner_only get_portfolio_summary_owner_only)
  show ?thesis by (intro conjI n o g r i)
qed

theorem isolation_witness:
  "(1::int) \<noteq> 2 \<and> distinct (map id' sample_db) \<and> bob_closed \<in> set sample_db
   \<and> user_id bob_closed = 2
   \<and> get_user_trades sample_db 1 None = [alice_closed, alice_open]
   \<and> bob_closed \<notin> set [alice_closed, alice_open]
   \<and> get_trade_by_id sample_db 2 1 = Inr None
   \<and> total_realized_pnl (get_portfolio_summary sample_db 1) = 500
   \<and> get_portfolio_summary sample_db 1
       = get_portfolio_summary [alice_open, bob_open, alice_closed] 1"
proof -
  have h: "(1::int) \<noteq> 2" "distinct (map id' sample_db)" "bob_closed \<in> set sample_db"
    "user_id bob_closed = 2"
    by (simp_all add: sample_defs)
  have i: "id' bob_closed = 2" by (simp add: bob_closed_def)
  have r: "removeAll bob_closed sample_db = [alice_open, bob_open, alice_closed]"
    by (simp add: sample_defs)
  have s: "total_realized_pnl (get_portfolio_summary sample_db 1) = 500"
    by (simp add: get_portfolio_summary_def sample_defs)
  note w = isolation [OF h, of None, unfolded i r sample_listing]
  from w have w1: "bob_closed \<notin> set [alice_closed, alice_open]" by (rule conjunct1)
  from w have w3: "get_trade_by_id sample_db 2 1 = Inr None" by (elim conjE)
  from w have w4: "get_portfolio_summary sample_db 1
       = get_portfolio_summary [alice_open, bob_open, alice_closed] 1" by (elim conjE)
  show ?thesis by (intro conjI h sample_listing(1) w1 w3 w4 s)
qed

section \<open>Opening a trade\<close>




end
